theory Spec2Isabelle
  imports Main "HOL-Library.AList"
begin

section \<open>JavaScript values, objects and results\<close>

text \<open>
  Objects live in a store and are named by their address, so that two references to one
  object see the same contents. The other values are \<open>undefined\<close>, the JSON scalars, an
  array that a built-in function has just made (\<open>NewArray\<close>, its holes read as
  \<open>undefined\<close>), and the functions and objects of the runtime (\<open>Native\<close>), named by the
  prototype that provides them and the member, as in \<open>Array.prototype.push\<close>.
\<close>

type_synonym addr = nat

datatype val =
  Undefined | Null | Bool bool | Num int | Str string | Ref addr | NewArray "val list"
  | Native string

type_synonym props = "(string \<times> val) list"

datatype err = TypeError | RangeError | Error string

subsection \<open>What the built-in prototypes provide\<close>

text \<open>
  The string-keyed members of the built-in prototypes, as of ECMAScript 2023 with its
  Annex B, which every read \<open>object[key]\<close> sees when the object has no own property
  under the key. An array inherits from \<open>Array.prototype\<close> and then from
  \<open>Object.prototype\<close>, and likewise a string, a number and a boolean from their own
  prototype first. The members of \<open>Object.prototype\<close> are the same in every runtime; an
  older runtime lacks the latest members of the others (\<open>at\<close>, \<open>flat\<close>,
  \<open>toSorted\<close>), on which no theorem below depends.
\<close>

definition object_prototype :: "string list" where
  "object_prototype =
     [''constructor'', ''__defineGetter__'', ''__defineSetter__'', ''hasOwnProperty'',
      ''__lookupGetter__'', ''__lookupSetter__'', ''isPrototypeOf'', ''propertyIsEnumerable'',
      ''toString'', ''valueOf'', ''__proto__'', ''toLocaleString'']"

definition array_prototype :: "string list" where
  "array_prototype =
     [''at'', ''concat'', ''constructor'', ''copyWithin'', ''entries'', ''every'', ''fill'',
      ''filter'', ''find'', ''findIndex'', ''findLast'', ''findLastIndex'', ''flat'',
      ''flatMap'', ''forEach'', ''includes'', ''indexOf'', ''join'', ''keys'', ''lastIndexOf'',
      ''map'', ''pop'', ''push'', ''reduce'', ''reduceRight'', ''reverse'', ''shift'', ''slice'',
      ''some'', ''sort'', ''splice'', ''toLocaleString'', ''toReversed'', ''toSorted'',
      ''toSpliced'', ''toString'', ''unshift'', ''values'', ''with'']"

definition string_prototype :: "string list" where
  "string_prototype =
     [''anchor'', ''at'', ''big'', ''blink'', ''bold'', ''charAt'', ''charCodeAt'',
      ''codePointAt'', ''concat'', ''constructor'', ''endsWith'', ''fixed'', ''fontcolor'',
      ''fontsize'', ''includes'', ''indexOf'', ''isWellFormed'', ''italics'', ''lastIndexOf'',
      ''link'', ''localeCompare'', ''match'', ''matchAll'', ''normalize'', ''padEnd'',
      ''padStart'', ''repeat'', ''replace'', ''replaceAll'', ''search'', ''slice'', ''small'',
      ''split'', ''startsWith'', ''strike'', ''sub'', ''substr'', ''substring'', ''sup'',
      ''toLocaleLowerCase'', ''toLocaleUpperCase'', ''toLowerCase'', ''toString'',
      ''toUpperCase'', ''toWellFormed'', ''trim'', ''trimEnd'', ''trimLeft'', ''trimRight'',
      ''trimStart'', ''valueOf'']"

definition number_prototype :: "string list" where
  "number_prototype =
     [''constructor'', ''toExponential'', ''toFixed'', ''toLocaleString'', ''toPrecision'',
      ''toString'', ''valueOf'']"

definition boolean_prototype :: "string list" where
  "boolean_prototype = [''constructor'', ''toString'', ''valueOf'']"

text \<open>
  The member that a chain of prototypes gives under a key: that of the first prototype
  that has one, else \<open>undefined\<close>.
\<close>

fun inherited :: "(string \<times> string list) list \<Rightarrow> string \<Rightarrow> val" where
  "inherited [] k = Undefined"
| "inherited ((owner, members) # chain) k =
     (if k \<in> set members then Native (owner @ ''.'' @ k) else inherited chain k)"

definition object_chain :: "(string \<times> string list) list" where
  "object_chain = [(''Object.prototype'', object_prototype)]"

definition array_chain :: "(string \<times> string list) list" where
  "array_chain = (''Array.prototype'', array_prototype) # object_chain"

definition string_chain :: "(string \<times> string list) list" where
  "string_chain = (''String.prototype'', string_prototype) # object_chain"

definition number_chain :: "(string \<times> string list) list" where
  "number_chain = (''Number.prototype'', number_prototype) # object_chain"

definition boolean_chain :: "(string \<times> string list) list" where
  "boolean_chain = (''Boolean.prototype'', boolean_prototype) # object_chain"

subsection \<open>Results\<close>

text \<open>A bluebird promise, seen once the event loop has run: settled one way or never.\<close>

datatype 'a promise = Fulfilled 'a | Rejected err | Pending

text \<open>
  What calling a JavaScript function gives: an exception, a plain value, or a promise.
\<close>

datatype 'a ret = Throws err | Plain val | Future "'a promise"

text \<open>
  What calling a method of the engine gives: an exception or its return value.
  \<open>Outside\<close> says that the run has left what the model describes (it has read a property
  of a function or object of the runtime, or replaced a prototype); nothing is stated
  about such a run.
\<close>

datatype 'a outcome = Threw err | Returned 'a | Outside

type_synonym handler = "val list \<Rightarrow> val list ret"

type_synonym extension = "val list \<Rightarrow> val ret"

datatype engine_ref = This

datatype closure = GetBasePath addr

text \<open>
  A plugin descriptor. A field the descriptor does not have is \<open>None\<close>; \<open>lager\<close>
  and \<open>getPath\<close> are the members the engines inject. \<open>GetBasePath p\<close> is the closure
  \<open>getBasePath\<close> of \<open>registerPlugin\<close>, which captures the descriptor \<open>p\<close>.
\<close>

record plugin =
  name :: "string option"
  hooks :: "(string \<times> handler) list option"
  extensions :: "(string \<times> extension) list option"
  config :: "addr option"
  lager :: "engine_ref option"
  getPath :: "closure option"

section \<open>The engine of src/lib/lager.js\<close>

text \<open>
  \<open>this.plugins\<close> holds references to the registered descriptors; \<open>objs\<close> is the
  part of the object store that holds the descriptors.
\<close>

record seq_lager =
  seq_plugins :: "addr list"
  objs :: "addr \<Rightarrow> plugin"

definition Lager_seq :: "(addr \<Rightarrow> plugin) \<Rightarrow> seq_lager" where
  "Lager_seq st = \<lparr>seq_plugins = [], objs = st\<rparr>"

text \<open>\<open>!plugin.name\<close>: the name is absent or the empty string.\<close>

definition falsy_name :: "string option \<Rightarrow> bool" where
  "falsy_name n = (case n of None \<Rightarrow> True | Some s \<Rightarrow> s = [])"

definition registerPlugin_seq :: "addr \<Rightarrow> seq_lager \<Rightarrow> engine_ref outcome \<times> seq_lager" where
  "registerPlugin_seq p s =
     (if falsy_name (name (objs s p))
      then (Threw (Error ''A lager plugin MUST have a name property''), s)
      else (Returned This,
            s\<lparr>objs := (objs s)(p := (objs s p)\<lparr>getPath := Some (GetBasePath p)\<rparr>),
              seq_plugins := seq_plugins s @ [p]\<rparr>))"

text \<open>\<open>_.find\<close> gives the first element that satisfies the predicate, or \<open>undefined\<close>.\<close>

definition getPlugin_seq :: "string \<Rightarrow> seq_lager \<Rightarrow> val outcome" where
  "getPlugin_seq n s =
     Returned (case find (\<lambda>p. name (objs s p) = Some n) (seq_plugins s) of
                 None \<Rightarrow> Undefined
               | Some p \<Rightarrow> Ref p)"

text \<open>The handler that the plugin itself has for the event: an own property of its hooks.\<close>

definition own_hook :: "plugin \<Rightarrow> string \<Rightarrow> handler option" where
  "own_hook pl ev = (case hooks pl of None \<Rightarrow> None | Some hs \<Rightarrow> map_of hs ev)"

text \<open>
  A member that the hooks object inherits from \<open>Object.prototype\<close>, taken for a handler:
  \<open>hooks[eventName].apply(plugin, args).spread(...)\<close> ends in a TypeError for each of
  them. \<open>__proto__\<close> is an object without \<open>apply\<close>; the others are functions that
  return no promise (a string, a boolean, \<open>undefined\<close>, the plugin, or an object made
  from the first argument), and none of these values has a method \<open>spread\<close>.
\<close>

definition inherited_hook :: handler where
  "inherited_hook args = Throws TypeError"

text \<open>
  \<open>plugin.hooks && plugin.hooks[eventName]\<close>: the read goes through the prototype chain
  of the hooks object, so it is truthy for an own handler and for every member of
  \<open>Object.prototype\<close>.
\<close>

definition hook_of :: "plugin \<Rightarrow> string \<Rightarrow> handler option" where
  "hook_of pl ev =
     (case hooks pl of
        None \<Rightarrow> None
      | Some hs \<Rightarrow>
          (case map_of hs ev of
             Some h \<Rightarrow> Some h
           | None \<Rightarrow> if ev \<in> set object_prototype then Some inherited_hook else None))"

text \<open>
  What the callback of \<open>.spread\<close> gives to the promise that \<open>.spread\<close> returned: an
  exception thrown in the callback rejects it, a promise returned by the callback is
  followed. The callback is \<open>callPluginsSequencialy\<close>, which never gives \<open>Outside\<close>.
\<close>

definition follow :: "'a promise outcome \<Rightarrow> 'a promise" where
  "follow r = (case r of Threw e \<Rightarrow> Rejected e | Returned q \<Rightarrow> q | Outside \<Rightarrow> Pending)"

type_synonym trace = "(nat \<times> val list) list"

text \<open>
  \<open>callPluginsSequencialy(i, args)\<close>. The second component is the list of the handler
  calls made, in order: the position of the plugin and the arguments it was called with.
  Reading \<open>this.plugins[i]\<close> past the end gives \<open>undefined\<close>, which ends the chain. A
  handler that returns a plain value has no \<open>.spread\<close>: a TypeError is thrown.
\<close>

function callPluginsSequencialy ::
  "seq_lager \<Rightarrow> string \<Rightarrow> nat \<Rightarrow> val list \<Rightarrow> val list promise outcome \<times> trace" where
  "callPluginsSequencialy s ev i args =
     (if length (seq_plugins s) \<le> i then (Returned (Fulfilled args), [])
      else case hook_of (objs s (seq_plugins s ! i)) ev of
        None \<Rightarrow> callPluginsSequencialy s ev (i + 1) args
      | Some h \<Rightarrow>
          (case h args of
             Throws e \<Rightarrow> (Threw e, [(i, args)])
           | Plain v \<Rightarrow> (Threw TypeError, [(i, args)])
           | Future (Rejected e) \<Rightarrow> (Returned (Rejected e), [(i, args)])
           | Future Pending \<Rightarrow> (Returned Pending, [(i, args)])
           | Future (Fulfilled args') \<Rightarrow>
               (case callPluginsSequencialy s ev (i + 1) args' of
                  (r, tr) \<Rightarrow> (Returned (follow r), (i, args) # tr))))"
  by pat_completeness auto
termination
  by (relation "measure (\<lambda>(s, ev, i, args). length (seq_plugins s) - i)") auto

declare callPluginsSequencialy.simps [simp del]

definition fire :: "seq_lager \<Rightarrow> string \<Rightarrow> val list \<Rightarrow> val list promise outcome \<times> trace" where
  "fire s eventName args = callPluginsSequencialy s eventName 0 args"

text \<open>
  The left fold of the specification: the accumulator is the future of the argument tuple,
  with the handler calls made so far; a plugin without a handler for the event leaves it
  as it is, a handler is called on a fulfilled tuple only, and a handler that throws, or
  returns no future, counts as one whose future rejects.
\<close>

definition hook_step ::
  "seq_lager \<Rightarrow> string \<Rightarrow> val list promise \<times> trace \<Rightarrow> nat \<Rightarrow> val list promise \<times> trace" where
  "hook_step s ev acc i =
     (case fst acc of
        Fulfilled args \<Rightarrow>
          (case hook_of (objs s (seq_plugins s ! i)) ev of
             None \<Rightarrow> acc
           | Some h \<Rightarrow>
               (case h args of
                  Throws e \<Rightarrow> (Rejected e, snd acc @ [(i, args)])
                | Plain v \<Rightarrow> (Rejected TypeError, snd acc @ [(i, args)])
                | Future q \<Rightarrow> (q, snd acc @ [(i, args)])))
      | Rejected e \<Rightarrow> acc
      | Pending \<Rightarrow> acc)"

definition fold_hooks :: "seq_lager \<Rightarrow> string \<Rightarrow> val list \<Rightarrow> val list promise \<times> trace" where
  "fold_hooks s ev args =
     foldl (hook_step s ev) (Fulfilled args, []) [0..<length (seq_plugins s)]"

section \<open>The engine that extends Pebo\<close>

text \<open>
  The second \<open>Lager\<close> of the repository, a class that extends Pebo. Its \<open>fire\<close> is
  Pebo's and is not modelled.
\<close>

subsection \<open>Property reads\<close>

definition digit_char :: "nat \<Rightarrow> char" where
  "digit_char d = char_of (48 + d)"

fun show_nat :: "nat \<Rightarrow> string" where
  "show_nat n = (if n < 10 then [digit_char n] else show_nat (n div 10) @ [digit_char (n mod 10)])"

declare show_nat.simps [simp del]

text \<open>The own enumerable properties of a string: its characters under their indices.\<close>

definition index_props :: "string \<Rightarrow> props" where
  "index_props str = zip (map show_nat [0..<length str]) (map (\<lambda>c. Str [c]) str)"

text \<open>The elements of a new array under their indices.\<close>

definition element_props :: "val list \<Rightarrow> props" where
  "element_props xs = zip (map show_nat [0..<length xs]) xs"

text \<open>
  \<open>v[k]\<close>. On \<open>undefined\<close> and \<open>null\<close> a TypeError. On an object of the store its own
  property, else the length when it is an array (\<open>arrays\<close> gives the length of the
  objects that are arrays), else what its prototypes provide. On a string its length or
  character, else what its prototypes provide; on a number and a boolean what their
  prototypes provide. A read on a function or object of the runtime is outside the model.
\<close>

definition get_prop ::
  "(addr \<Rightarrow> props) \<Rightarrow> (addr \<Rightarrow> nat option) \<Rightarrow> val \<Rightarrow> string \<Rightarrow> val outcome" where
  "get_prop h ar v k =
     (case v of
        Undefined \<Rightarrow> Threw TypeError
      | Null \<Rightarrow> Threw TypeError
      | Bool b \<Rightarrow> Returned (inherited boolean_chain k)
      | Num n \<Rightarrow> Returned (inherited number_chain k)
      | Str str \<Rightarrow>
          Returned (if k = ''length'' then Num (int (length str))
                    else case map_of (index_props str) k of
                           Some c \<Rightarrow> c
                         | None \<Rightarrow> inherited string_chain k)
      | Ref a \<Rightarrow>
          Returned (case map_of (h a) k of
                      Some x \<Rightarrow> x
                    | None \<Rightarrow>
                        (case ar a of
                           None \<Rightarrow> inherited object_chain k
                         | Some n \<Rightarrow>
                             if k = ''length'' then Num (int n) else inherited array_chain k))
      | NewArray xs \<Rightarrow>
          Returned (if k = ''length'' then Num (int (length xs))
                    else case map_of (element_props xs) k of
                           Some x \<Rightarrow> x
                         | None \<Rightarrow> inherited array_chain k)
      | Native f \<Rightarrow> Outside)"

text \<open>The own property of an object under a key, \<open>undefined\<close> when it has none.\<close>

definition lookup :: "props \<Rightarrow> string \<Rightarrow> val" where
  "lookup ps k = (case map_of ps k of None \<Rightarrow> Undefined | Some v \<Rightarrow> v)"

subsection \<open>The state\<close>

text \<open>
  \<open>this.config\<close> and \<open>this.plugins\<close>; the own entries of \<open>this.extensions\<close>, an array
  whose length stays 0 since every key that \<open>registerPlugin\<close> stores has a colon; the
  listeners that Pebo's \<open>when\<close> has recorded; and the object store: the plugin
  descriptors, the own enumerable properties of the configuration objects, the length of
  those that are arrays, and the next free address.
\<close>

record lager_state =
  this_config :: val
  plugins :: "addr list"
  this_extensions :: "(string \<times> extension) list"
  listeners :: "(string \<times> handler) list"
  descriptors :: "addr \<Rightarrow> plugin"
  heap :: "addr \<Rightarrow> props"
  arrays :: "addr \<Rightarrow> nat option"
  next_addr :: addr

subsection \<open>getConfig\<close>

text \<open>\<open>key.split('.')\<close>: never empty; the empty string gives one empty segment.\<close>

fun split_dot :: "string \<Rightarrow> string list" where
  "split_dot [] = [[]]"
| "split_dot (c # cs) =
     (if c = CHR ''.'' then [] # split_dot cs
      else case split_dot cs of [] \<Rightarrow> [[c]] | w # ws \<Rightarrow> (c # w) # ws)"

text \<open>The \<open>while\<close> loop of \<open>getConfig\<close> over the remaining segments.\<close>

fun getConfig_loop ::
  "(addr \<Rightarrow> props) \<Rightarrow> (addr \<Rightarrow> nat option) \<Rightarrow> val \<Rightarrow> string list \<Rightarrow> val outcome" where
  "getConfig_loop h ar part [] = Returned part"
| "getConfig_loop h ar part (k # ks) =
     (if part = Undefined then Returned Undefined
      else case get_prop h ar part k of
             Threw e \<Rightarrow> Threw e
           | Returned v \<Rightarrow> getConfig_loop h ar v ks
           | Outside \<Rightarrow> Outside)"

text \<open>
  \<open>getConfig(key)\<close>; \<open>None\<close> is the call without a key. \<open>shift()\<close> of an empty
  array would give \<open>undefined\<close>, read as the property name \<open>undefined\<close>.
\<close>

definition getConfig :: "string option \<Rightarrow> lager_state \<Rightarrow> val outcome" where
  "getConfig key s =
     (case key of
        None \<Rightarrow> Returned (this_config s)
      | Some k \<Rightarrow>
          (case split_dot k of
             [] \<Rightarrow> get_prop (heap s) (arrays s) (this_config s) ''undefined''
           | k0 # ks \<Rightarrow>
               (case get_prop (heap s) (arrays s) (this_config s) k0 of
                  Threw e \<Rightarrow> Threw e
                | Returned part \<Rightarrow> getConfig_loop (heap s) (arrays s) part ks
                | Outside \<Rightarrow> Outside)))"

subsection \<open>registerPlugin\<close>

text \<open>
  lodash's \<open>_.assign(object, source)\<close>: the own enumerable properties of the source are
  written into the object, in order, and the object itself is returned; \<open>undefined\<close> as
  the object stands for a new empty object. A source without own enumerable properties
  (\<open>null\<close>, a number, a boolean, a function of the runtime) changes nothing.
\<close>

definition own_enumerable :: "(addr \<Rightarrow> props) \<Rightarrow> val \<Rightarrow> props" where
  "own_enumerable h v =
     (case v of
        Ref a \<Rightarrow> h a
      | Str str \<Rightarrow> index_props str
      | NewArray xs \<Rightarrow> element_props xs
      | _ \<Rightarrow> [])"

definition assignValues :: "props \<Rightarrow> props \<Rightarrow> props" where
  "assignValues object source = foldl (\<lambda>t (k, v). AList.update k v t) object source"

definition assign ::
  "addr option \<Rightarrow> val \<Rightarrow> (addr \<Rightarrow> props) \<Rightarrow> addr \<Rightarrow> addr \<times> (addr \<Rightarrow> props) \<times> addr" where
  "assign object source h n =
     (case object of
        Some a \<Rightarrow> (a, h(a := assignValues (h a) (own_enumerable h source)), n)
      | None \<Rightarrow> (n, h(n := assignValues [] (own_enumerable h source)), n + 1))"

text \<open>\<open>plugin.lager = this\<close>\<close>

definition inject_lager :: "addr \<Rightarrow> lager_state \<Rightarrow> lager_state" where
  "inject_lager p s = s\<lparr>descriptors := (descriptors s)(p := (descriptors s p)\<lparr>lager := Some This\<rparr>)\<rparr>"

text \<open>
  \<open>_.camelCase(plugin.name)\<close>. lodash's \<open>camelCase\<close> is a parameter of the model; it reads
  \<open>undefined\<close> as the empty string.
\<close>

definition plugiConfigKey :: "(string \<Rightarrow> string) \<Rightarrow> plugin \<Rightarrow> string" where
  "plugiConfigKey camelCase pl = camelCase (case name pl of None \<Rightarrow> [] | Some n \<Rightarrow> n)"

text \<open>\<open>plugin.config = _.assign(plugin.config, pluginConfig)\<close>\<close>

definition override_config :: "addr \<Rightarrow> val \<Rightarrow> lager_state \<Rightarrow> lager_state" where
  "override_config p pluginConfig s =
     (case assign (config (descriptors s p)) pluginConfig (heap s) (next_addr s) of
        (a, h, n) \<Rightarrow>
          s\<lparr>descriptors := (descriptors s)(p := (descriptors s p)\<lparr>config := Some a\<rparr>),
            heap := h, next_addr := n\<rparr>)"

definition config_val :: "plugin \<Rightarrow> val" where
  "config_val pl = (case config pl of None \<Rightarrow> Undefined | Some a \<Rightarrow> Ref a)"

text \<open>
  \<open>plugin.hooks = plugin.hooks || []\<close> and \<open>this.when(event, fn)\<close> for each hook, then
  the same for the extensions, stored under \<open>plugin.name + ':' + extensionName\<close>.
\<close>

definition add_hooks :: "addr \<Rightarrow> lager_state \<Rightarrow> lager_state" where
  "add_hooks p s =
     (let hs = (case hooks (descriptors s p) of None \<Rightarrow> [] | Some hs \<Rightarrow> hs)
      in s\<lparr>descriptors := (descriptors s)(p := (descriptors s p)\<lparr>hooks := Some hs\<rparr>),
           listeners := listeners s @ hs\<rparr>)"

definition extension_key :: "plugin \<Rightarrow> string \<Rightarrow> string" where
  "extension_key pl extensionName =
     (case name pl of None \<Rightarrow> ''undefined'' | Some n \<Rightarrow> n) @ '':'' @ extensionName"

definition add_extensions :: "addr \<Rightarrow> lager_state \<Rightarrow> lager_state" where
  "add_extensions p s =
     (let es = (case extensions (descriptors s p) of None \<Rightarrow> [] | Some es \<Rightarrow> es)
      in s\<lparr>descriptors := (descriptors s)(p := (descriptors s p)\<lparr>extensions := Some es\<rparr>),
           this_extensions :=
             foldl (\<lambda>t (k, fn). AList.update (extension_key (descriptors s p) k) fn t)
               (this_extensions s) es\<rparr>)"

text \<open>The number that a property name is as an array index, if it is one.\<close>

definition digit_val :: "char \<Rightarrow> nat option" where
  "digit_val c = map_of (zip ''0123456789'' [0..<10]) c"

definition digits_value :: "string \<Rightarrow> nat" where
  "digits_value k = foldl (\<lambda>n c. 10 * n + (case digit_val c of None \<Rightarrow> 0 | Some d \<Rightarrow> d)) 0 k"

definition array_index :: "string \<Rightarrow> nat option" where
  "array_index k =
     (if k \<noteq> [] \<and> list_all (\<lambda>c. digit_val c \<noteq> None) k \<and> (k = ''0'' \<or> hd k \<noteq> CHR ''0'')
         \<and> digits_value k < 4294967295
      then Some (digits_value k)
      else None)"

text \<open>
  \<open>this.config[plugiConfigKey] = plugin.config\<close>, in strict mode; the value is
  \<open>undefined\<close> or an object.

  An own property is overwritten. Otherwise \<open>__proto__\<close> is the setter of
  \<open>Object.prototype\<close>: it stores nothing for \<open>undefined\<close>, refuses the object itself
  (a cycle) and else replaces the prototype, which the model does not follow. Otherwise
  on an array \<open>length\<close> is the length, and a value that is no number throws a
  RangeError: \<open>undefined\<close> and an object without \<open>valueOf\<close> and \<open>toString\<close> of its
  own are no numbers, what another object converts to is not modelled; an array index
  stores the element and extends the length. Every other key becomes a new own property.
  Writing a property of \<open>undefined\<close>, \<open>null\<close>, a string, a number or a boolean throws.
\<close>

definition store_config :: "string \<Rightarrow> val \<Rightarrow> lager_state \<Rightarrow> lager_state outcome" where
  "store_config k v s =
     (case this_config s of
        Ref c \<Rightarrow>
          (if map_of (heap s c) k \<noteq> None
           then Returned (s\<lparr>heap := (heap s)(c := AList.update k v (heap s c))\<rparr>)
           else if k = ''__proto__''
           then (if v = Undefined then Returned s
                 else if v = Ref c then Threw TypeError else Outside)
           else case arrays s c of
                  None \<Rightarrow> Returned (s\<lparr>heap := (heap s)(c := AList.update k v (heap s c))\<rparr>)
                | Some n \<Rightarrow>
                    if k = ''length''
                    then (case v of
                            Undefined \<Rightarrow> Threw RangeError
                          | Ref a \<Rightarrow>
                              if arrays s a = None \<and> map_of (heap s a) ''valueOf'' = None
                                 \<and> map_of (heap s a) ''toString'' = None
                              then Threw RangeError else Outside
                          | _ \<Rightarrow> Outside)
                    else (case array_index k of
                            None \<Rightarrow>
                              Returned (s\<lparr>heap := (heap s)(c := AList.update k v (heap s c))\<rparr>)
                          | Some i \<Rightarrow>
                              Returned (s\<lparr>heap := (heap s)(c := AList.update k v (heap s c)),
                                          arrays := (arrays s)(c := Some (max n (i + 1)))\<rparr>)))
      | NewArray xs \<Rightarrow> Outside
      | Native f \<Rightarrow> Outside
      | _ \<Rightarrow> Threw TypeError)"

text \<open>
  \<open>registerPlugin(plugin)\<close>. An exception leaves the state as the statements before it
  made it.
\<close>

definition registerPlugin ::
  "(string \<Rightarrow> string) \<Rightarrow> addr \<Rightarrow> lager_state \<Rightarrow> engine_ref outcome \<times> lager_state" where
  "registerPlugin camelCase p s =
     (let s1 = inject_lager p s;
          k = plugiConfigKey camelCase (descriptors s1 p)
      in case getConfig (Some k) s1 of
           Threw e \<Rightarrow> (Threw e, s1)
         | Outside \<Rightarrow> (Outside, s1)
         | Returned pluginConfig \<Rightarrow>
             (let s2 = (if pluginConfig \<noteq> Undefined then override_config p pluginConfig s1 else s1)
              in case store_config k (config_val (descriptors s2 p)) s2 of
                   Threw e \<Rightarrow> (Threw e, s2)
                 | Outside \<Rightarrow> (Outside, s2)
                 | Returned s3 \<Rightarrow>
                     (let s4 = s3\<lparr>plugins := plugins s3 @ [p]\<rparr>
                      in (Returned This, add_extensions p (add_hooks p s4)))))"

subsection \<open>isPluginRegistered, getPlugin and call\<close>

definition isPluginRegistered :: "string \<Rightarrow> lager_state \<Rightarrow> bool" where
  "isPluginRegistered n s = (find (\<lambda>p. name (descriptors s p) = Some n) (plugins s) \<noteq> None)"

definition getPlugin :: "string \<Rightarrow> lager_state \<Rightarrow> val outcome" where
  "getPlugin n s =
     (case find (\<lambda>p. name (descriptors s p) = Some n) (plugins s) of
        None \<Rightarrow>
          Threw (Error (''The plugin '' @ [CHR 0x22] @ n @ [CHR 0x22]
                        @ '' is not registered in the Lager instance''))
      | Some p \<Rightarrow> Returned (Ref p))"

text \<open>\<open>Array(...args)\<close>: one number is the length of the new array, not its element.\<close>

definition Array_call :: "val list \<Rightarrow> val ret" where
  "Array_call args =
     (case args of
        [Num n] \<Rightarrow>
          if 0 \<le> n \<and> n < 4294967296 then Plain (NewArray (replicate (nat n) Undefined))
          else Throws RangeError
      | _ \<Rightarrow> Plain (NewArray args))"

definition is_object :: "val \<Rightarrow> bool" where
  "is_object v = (case v of Ref a \<Rightarrow> True | NewArray xs \<Rightarrow> True | Native f \<Rightarrow> True | _ \<Rightarrow> False)"

text \<open>
  \<open>this.extensions[name].apply(null, args)\<close> for a member that the array
  \<open>this.extensions\<close> inherits. \<open>constructor\<close> is \<open>Array\<close>; \<open>isPrototypeOf\<close> answers
  \<open>false\<close> for an argument that is no object before it looks at \<open>this\<close>; \<open>__proto__\<close>
  is an object without \<open>apply\<close>; every other member converts \<open>this\<close>, which is
  \<open>null\<close>, to an object and throws.
\<close>

definition apply_inherited :: "string \<Rightarrow> val list \<Rightarrow> val ret" where
  "apply_inherited n args =
     (if n = ''constructor'' then Array_call args
      else if n = ''isPrototypeOf''
      then (if is_object (case args of [] \<Rightarrow> Undefined | v # rest \<Rightarrow> v) then Throws TypeError
            else Plain (Bool False))
      else Throws TypeError)"

text \<open>
  \<open>call(name, ...args)\<close>: what the extension returns is returned as it is. The read
  \<open>this.extensions[name]\<close> goes through the prototype chain of the array: without an own
  entry it is the length for \<open>length\<close>, which is 0 and falsy, and a member of
  \<open>Array.prototype\<close> or \<open>Object.prototype\<close> for their names, which is truthy and is
  applied. \<open>args[args.length - 1]\<close> is \<open>undefined\<close> when there are no arguments.
\<close>

definition call :: "string \<Rightarrow> val list \<Rightarrow> lager_state \<Rightarrow> val ret" where
  "call n args s =
     (case map_of (this_extensions s) n of
        Some ext \<Rightarrow> ext args
      | None \<Rightarrow>
          if n \<noteq> ''length'' \<and> inherited array_chain n \<noteq> Undefined then apply_inherited n args
          else Future (Fulfilled (if args = [] then Undefined else last args)))"

text \<open>
  The constructor: \<open>this.config = []\<close> is a new array at the next free address, and
  \<open>this.extensions = []\<close> has no entry. The objects of the given store are plain objects.
\<close>

definition Lager :: "(addr \<Rightarrow> plugin) \<Rightarrow> (addr \<Rightarrow> props) \<Rightarrow> addr \<Rightarrow> lager_state" where
  "Lager ds h n =
     \<lparr>this_config = Ref n, plugins = [], this_extensions = [], listeners = [],
      descriptors = ds, heap = h(n := []), arrays = (\<lambda>a. None)(n := Some 0),
      next_addr = n + 1\<rparr>"

section \<open>Example plugins and configurations\<close>

text \<open>A hook that appends a suffix to its first argument when that is a string.\<close>

definition append_hook :: "string \<Rightarrow> handler" where
  "append_hook sfx args =
     (case args of
        Str x # rest \<Rightarrow> Future (Fulfilled (Str (x @ sfx) # rest))
      | _ \<Rightarrow> Future (Fulfilled args))"

definition descriptor :: "string \<Rightarrow> (string \<times> handler) list \<Rightarrow> plugin" where
  "descriptor n hs =
     \<lparr>name = Some n, hooks = Some hs, extensions = None, config = None, lager = None,
      getPath = None\<rparr>"

definition nameless :: plugin where
  "nameless =
     \<lparr>name = None, hooks = None, extensions = None, config = None, lager = None,
      getPath = None\<rparr>"

text \<open>A descriptor store of descriptors without a name, and a store of empty objects.\<close>

definition nameless_store :: "addr \<Rightarrow> plugin" where
  "nameless_store a = nameless"

definition empty_heap :: "addr \<Rightarrow> props" where
  "empty_heap a = []"


text \<open>Plugin A at address 0 and plugin B at every other address.\<close>

definition two_plugins :: "string \<Rightarrow> addr \<Rightarrow> plugin" where
  "two_plugins ev a =
     (if a = 0 then descriptor ''A'' [(ev, append_hook ''-A'')]
      else descriptor ''B'' [(ev, append_hook ''-B'')])"

text \<open>A store of plugins named A whose hooks object is empty.\<close>

definition hookless_store :: "addr \<Rightarrow> plugin" where
  "hookless_store a = descriptor ''A'' []"

text \<open>Three plugins for one event; the handler of the second rejects.\<close>

definition three_plugins :: "addr \<Rightarrow> plugin" where
  "three_plugins a =
     (if a = 0 then descriptor ''A'' [(''deploy'', append_hook ''-A'')]
      else if a = 1 then descriptor ''B'' [(''deploy'', \<lambda>args. Future (Rejected (Error ''boom'')))]
      else descriptor ''C'' [(''deploy'', append_hook ''-C'')])"

definition register_all :: "addr list \<Rightarrow> (addr \<Rightarrow> plugin) \<Rightarrow> seq_lager" where
  "register_all ps ds = foldl (\<lambda>s p. snd (registerPlugin_seq p s)) (Lager_seq ds) ps"

text \<open>
  lodash's \<open>camelCase\<close> on the names of the examples, which are empty or one word of
  letters with at most its first letter in upper case (\<open>iam\<close>, \<open>P\<close>): the word in
  lower case.
\<close>

definition lower_case :: "char \<Rightarrow> char" where
  "lower_case c =
     (case map_of (zip ''ABCDEFGHIJKLMNOPQRSTUVWXYZ'' ''abcdefghijklmnopqrstuvwxyz'') c of
        None \<Rightarrow> c
      | Some l \<Rightarrow> l)"

definition camelCase_word :: "string \<Rightarrow> string" where
  "camelCase_word n = map lower_case n"

text \<open>An extension that doubles its single numeric argument, as \<open>x => 2 * x\<close> does.\<close>

definition double :: extension where
  "double args = (case args of Num x # rest \<Rightarrow> Plain (Num (2 * x)) | _ \<Rightarrow> Plain Undefined)"

definition plugin_P :: "addr \<Rightarrow> plugin" where
  "plugin_P a =
     \<lparr>name = Some ''P'', hooks = None, extensions = Some [(''double'', double)], config = None,
      lager = None, getPath = None\<rparr>"

text \<open>The configuration \<open>{a: null}\<close>, at address 0.\<close>

definition null_config :: lager_state where
  "null_config = (Lager nameless_store empty_heap 1)
     \<lparr>this_config := Ref 0, heap := empty_heap(0 := [(''a'', Null)])\<rparr>"

text \<open>
  The project configuration \<open>{iam: {timeout: 60}}\<close> at address 0, its subsection at
  address 5, and the plugin \<open>iam\<close> whose own configuration \<open>{timeout: 30}\<close> is at
  address 2.
\<close>

definition iam_plugin :: "addr \<Rightarrow> plugin" where
  "iam_plugin a =
     \<lparr>name = Some ''iam'', hooks = None, extensions = None, config = Some 2, lager = None,
      getPath = None\<rparr>"

definition timeout_heap :: "addr \<Rightarrow> props" where
  "timeout_heap a =
     (if a = 0 then [(''iam'', Ref 5)]
      else if a = 5 then [(''timeout'', Num 60)]
      else if a = 2 then [(''timeout'', Num 30)]
      else [])"

definition timeout_state :: lager_state where
  "timeout_state = (Lager iam_plugin timeout_heap 6)\<lparr>this_config := Ref 0\<rparr>"

text \<open>The plugin \<open>iam\<close> registered twice, from the descriptors at the addresses 7 and 8.\<close>

definition two_iam :: lager_state where
  "two_iam =
     snd (registerPlugin camelCase_word 8 (snd (registerPlugin camelCase_word 7 timeout_state)))"

section \<open>The hook dispatcher\<close>

lemma callP_end:
  "length (seq_plugins s) \<le> i \<Longrightarrow>
   callPluginsSequencialy s ev i args = (Returned (Fulfilled args), [])"
  by (simp add: callPluginsSequencialy.simps [of s ev i args])

lemma callP_skip:
  "i < length (seq_plugins s) \<Longrightarrow> hook_of (objs s (seq_plugins s ! i)) ev = None \<Longrightarrow>
   callPluginsSequencialy s ev i args = callPluginsSequencialy s ev (Suc i) args"
  by (simp add: callPluginsSequencialy.simps [of s ev i args])

lemma callP_stop:
  "i < length (seq_plugins s) \<Longrightarrow> hook_of (objs s (seq_plugins s ! i)) ev = Some h \<Longrightarrow>
   \<forall>args'. h args \<noteq> Future (Fulfilled args') \<Longrightarrow>
   callPluginsSequencialy s ev i args =
     (case h args of Throws e \<Rightarrow> Threw e | Plain v \<Rightarrow> Threw TypeError | Future q \<Rightarrow> Returned q,
      [(i, args)])"
  by (simp add: callPluginsSequencialy.simps [of s ev i args] split: ret.splits promise.splits)

lemma callP_next:
  "i < length (seq_plugins s) \<Longrightarrow> hook_of (objs s (seq_plugins s ! i)) ev = Some h \<Longrightarrow>
   h args = Future (Fulfilled args') \<Longrightarrow>
   callPluginsSequencialy s ev i args =
     (Returned (follow (fst (callPluginsSequencialy s ev (Suc i) args'))),
      (i, args) # snd (callPluginsSequencialy s ev (Suc i) args'))"
  by (simp add: callPluginsSequencialy.simps [of s ev i args] split: prod.splits)

lemma hook_step_Fulfilled:
  "hook_step s ev (Fulfilled args, tr) i =
     (case hook_of (objs s (seq_plugins s ! i)) ev of
        None \<Rightarrow> (Fulfilled args, tr)
      | Some h \<Rightarrow>
          (case h args of
             Throws e \<Rightarrow> (Rejected e, tr @ [(i, args)])
           | Plain v \<Rightarrow> (Rejected TypeError, tr @ [(i, args)])
           | Future q \<Rightarrow> (q, tr @ [(i, args)])))"
  by (simp add: hook_step_def split: option.splits ret.splits)

lemma foldl_hook_step_Rejected: "foldl (hook_step s ev) (Rejected e, tr) is = (Rejected e, tr)"
  by (induction "is") (simp_all add: hook_step_def)

lemma foldl_hook_step_Pending: "foldl (hook_step s ev) (Pending, tr) is = (Pending, tr)"
  by (induction "is") (simp_all add: hook_step_def)

lemma foldl_hook_step_stop:
  "\<forall>args'. q \<noteq> Fulfilled args' \<Longrightarrow> foldl (hook_step s ev) (q, tr) is = (q, tr)"
  by (cases q) (simp_all add: foldl_hook_step_Rejected foldl_hook_step_Pending)

lemma callP_fold:
  "foldl (hook_step s ev) (Fulfilled args, tr0) [i..<length (seq_plugins s)] =
     (follow (fst (callPluginsSequencialy s ev i args)),
      tr0 @ snd (callPluginsSequencialy s ev i args))"
proof (induction s ev i args arbitrary: tr0 rule: callPluginsSequencialy.induct)
  case (1 s ev i args)
  show ?case
  proof (cases "length (seq_plugins s) \<le> i")
    case True
    then show ?thesis by (simp add: callP_end follow_def)
  next
    case False
    then have lt: "i < length (seq_plugins s)" by simp
    then have upt: "[i..<length (seq_plugins s)] = i # [Suc i..<length (seq_plugins s)]"
      by (simp add: upt_conv_Cons)
    show ?thesis
    proof (cases "hook_of (objs s (seq_plugins s ! i)) ev")
      case None
      from "1.IH"(1) [OF False None, of tr0] show ?thesis
        by (simp add: upt callP_skip [OF lt None] hook_step_Fulfilled None)
    next
      case (Some h)
      show ?thesis
      proof (cases "\<exists>args'. h args = Future (Fulfilled args')")
        case True
        then obtain args' where h: "h args = Future (Fulfilled args')" by blast
        from "1.IH"(2) [OF False Some h refl, of "tr0 @ [(i, args)]"] show ?thesis
          by (simp add: upt callP_next [OF lt Some h] hook_step_Fulfilled Some h follow_def)
      next
        case False
        then have stop: "\<forall>args'. h args \<noteq> Future (Fulfilled args')" by blast
        show ?thesis
        proof (cases "h args")
          case (Throws e)
          then show ?thesis
            by (simp add: upt callP_stop [OF lt Some stop] hook_step_Fulfilled Some follow_def
                foldl_hook_step_Rejected)
        next
          case (Plain v)
          then show ?thesis
            by (simp add: upt callP_stop [OF lt Some stop] hook_step_Fulfilled Some follow_def
                foldl_hook_step_Rejected)
        next
          case (Future q)
          with stop have "\<forall>args'. q \<noteq> Fulfilled args'" by simp
          with Future show ?thesis
            by (simp add: upt callP_stop [OF lt Some stop] hook_step_Fulfilled Some follow_def
                foldl_hook_step_stop)
        qed
      qed
    qed
  qed
qed

lemma callP_unhandled:
  "\<forall>p \<in> set (seq_plugins s). hook_of (objs s p) ev = None \<Longrightarrow>
   callPluginsSequencialy s ev i args = (Returned (Fulfilled args), [])"
proof (induction s ev i args rule: callPluginsSequencialy.induct)
  case (1 s ev i args)
  show ?case
  proof (cases "length (seq_plugins s) \<le> i")
    case True
    then show ?thesis by (rule callP_end)
  next
    case False
    then have lt: "i < length (seq_plugins s)" by simp
    then have "seq_plugins s ! i \<in> set (seq_plugins s)" by simp
    with "1.prems" have none: "hook_of (objs s (seq_plugins s ! i)) ev = None" by blast
    from "1.IH"(1) [OF False none "1.prems"] show ?thesis
      by (simp add: callP_skip [OF lt none])
  qed
qed

lemma callP_trace_ge:
  "(j, b) \<in> set (snd (callPluginsSequencialy s ev i args)) \<Longrightarrow> i \<le> j"
proof (induction s ev i args rule: callPluginsSequencialy.induct)
  case (1 s ev i args)
  let ?c = "callPluginsSequencialy s ev i args"
  have mem: "(j, b) \<in> set (snd ?c)" by (rule "1.prems")
  show ?case
  proof (cases "length (seq_plugins s) \<le> i")
    case True
    with mem show ?thesis by (simp add: callP_end)
  next
    case False
    then have lt: "i < length (seq_plugins s)" by simp
    show ?thesis
    proof (cases "hook_of (objs s (seq_plugins s ! i)) ev")
      case None
      from "1.IH"(1) [OF False None] mem show ?thesis
        by (simp add: callP_skip [OF lt None])
    next
      case (Some g)
      show ?thesis
      proof (cases "\<exists>args'. g args = Future (Fulfilled args')")
        case True
        then obtain args' where g: "g args = Future (Fulfilled args')" by blast
        let ?d = "callPluginsSequencialy s ev (Suc i) args'"
        from mem have "j = i \<or> (j, b) \<in> set (snd ?d)"
          by (auto simp: callP_next [OF lt Some g])
        then show ?thesis
        proof
          assume "j = i" then show ?thesis by simp
        next
          assume "(j, b) \<in> set (snd ?d)"
          with "1.IH"(2) [OF False Some g refl] show ?thesis by simp
        qed
      next
        case False
        then have "\<forall>args'. g args \<noteq> Future (Fulfilled args')" by blast
        from mem callP_stop [OF lt Some this] show ?thesis by simp
      qed
    qed
  qed
qed

lemma callP_reject:
  "(j, a) \<in> set (snd (callPluginsSequencialy s ev i args)) \<Longrightarrow>
   hook_of (objs s (seq_plugins s ! j)) ev = Some h \<Longrightarrow> h a = Future (Rejected e) \<Longrightarrow>
   fst (callPluginsSequencialy s ev i args) = Returned (Rejected e) \<and>
   (\<forall>(k, b) \<in> set (snd (callPluginsSequencialy s ev i args)). k \<le> j)"
proof (induction s ev i args rule: callPluginsSequencialy.induct)
  case (1 s ev i args)
  let ?c = "callPluginsSequencialy s ev i args"
  have mem: "(j, a) \<in> set (snd ?c)" by (rule "1.prems"(1))
  show ?case
  proof (cases "length (seq_plugins s) \<le> i")
    case True
    with mem show ?thesis by (simp add: callP_end)
  next
    case False
    then have lt: "i < length (seq_plugins s)" by simp
    show ?thesis
    proof (cases "hook_of (objs s (seq_plugins s ! i)) ev")
      case None
      from "1.IH"(1) [OF False None] mem "1.prems"(2,3) show ?thesis
        by (simp add: callP_skip [OF lt None])
    next
      case (Some g)
      show ?thesis
      proof (cases "\<exists>args'. g args = Future (Fulfilled args')")
        case True
        then obtain args' where g: "g args = Future (Fulfilled args')" by blast
        let ?d = "callPluginsSequencialy s ev (Suc i) args'"
        have eq: "?c = (Returned (follow (fst ?d)), (i, args) # snd ?d)"
          by (rule callP_next [OF lt Some g])
        have "(j, a) \<noteq> (i, args)"
          using Some g "1.prems"(2,3) by auto
        with mem eq have mem': "(j, a) \<in> set (snd ?d)" by auto
        from "1.IH"(2) [OF False Some g refl] mem' "1.prems"(2,3)
        have r: "fst ?d = Returned (Rejected e)" and le: "\<forall>(k, b) \<in> set (snd ?d). k \<le> j"
          by simp_all
        from callP_trace_ge [OF mem'] have "i \<le> j" by simp
        with r le show ?thesis unfolding eq by (simp add: follow_def)
      next
        case False
        then have stop: "\<forall>args'. g args \<noteq> Future (Fulfilled args')" by blast
        have eq: "?c = (case g args of Throws e \<Rightarrow> Threw e | Plain v \<Rightarrow> Threw TypeError
                          | Future q \<Rightarrow> Returned q, [(i, args)])"
          by (rule callP_stop [OF lt Some stop])
        with mem have "j = i" "a = args" by simp_all
        with Some "1.prems"(2,3) have "g args = Future (Rejected e)" by simp
        then show ?thesis unfolding eq using \<open>j = i\<close> by simp
      qed
    qed
  qed
qed

lemmas fixture_defs = register_all_def registerPlugin_seq_def Lager_seq_def two_plugins_def
  three_plugins_def descriptor_def falsy_name_def hook_of_def append_hook_def follow_def

text \<open>
  C1. \<open>fire\<close> is the sequential left fold over the registry, in registration order: its
  future and its handler calls are those of \<open>fold_hooks\<close>, where a handler is called on
  the tuple that the handlers before it produced. With plugin A appending \<open>-A\<close> and
  plugin B appending \<open>-B\<close> to the first argument, registering A then B and firing with
  \<open>x\<close> resolves to \<open>x-A-B\<close>, B being called with \<open>x-A\<close>; registering B then A
  resolves to \<open>x-B-A\<close>.
\<close>

theorem fire_sequential_fold:
  "(follow (fst (fire s ev args)), snd (fire s ev args)) = fold_hooks s ev args \<and>
   fire (register_all [0, 1] (two_plugins ev)) ev [Str ''x''] =
     (Returned (Fulfilled [Str ''x-A-B'']), [(0, [Str ''x'']), (1, [Str ''x-A''])]) \<and>
   fire (register_all [1, 0] (two_plugins ev)) ev [Str ''x''] =
     (Returned (Fulfilled [Str ''x-B-A'']), [(0, [Str ''x'']), (1, [Str ''x-B''])])"
proof (intro conjI)
  show "(follow (fst (fire s ev args)), snd (fire s ev args)) = fold_hooks s ev args"
    using callP_fold [of s ev args "[]" 0] by (simp add: fire_def fold_hooks_def)
  show "fire (register_all [0, 1] (two_plugins ev)) ev [Str ''x''] =
     (Returned (Fulfilled [Str ''x-A-B'']), [(0, [Str ''x'']), (1, [Str ''x-A''])])"
    by (simp add: fire_def fixture_defs callPluginsSequencialy.simps)
  show "fire (register_all [1, 0] (two_plugins ev)) ev [Str ''x''] =
     (Returned (Fulfilled [Str ''x-B-A'']), [(0, [Str ''x'']), (1, [Str ''x-B''])])"
    by (simp add: fire_def fixture_defs callPluginsSequencialy.simps)
qed

text \<open>
  C2. If a handler called during \<open>fire\<close>, that of the plugin at position \<open>i\<close>, rejects
  with an error, then \<open>fire\<close> returns a future rejected with that same error, and no
  handler of a plugin after position \<open>i\<close> is called.
\<close>

theorem fire_fail_fast:
  assumes "fire s ev args = (r, tr)"
    and "(i, a) \<in> set tr"
    and "hook_of (objs s (seq_plugins s ! i)) ev = Some h"
    and "h a = Future (Rejected e)"
  shows "r = Returned (Rejected e) \<and> (\<forall>(j, b) \<in> set tr. j \<le> i)"
  using callP_reject [of i a s ev 0 args h e] assms by (simp add: fire_def)

text \<open>
  Of three plugins with a handler for \<open>deploy\<close>, the second rejects: the third is not
  called.
\<close>

theorem fire_fail_fast_witness:
  "fire (register_all [0, 1, 2] three_plugins) ''deploy'' [Str ''x''] =
     (Returned (Rejected (Error ''boom'')), [(0, [Str ''x'']), (1, [Str ''x-A''])])"
proof -
  let ?s = "register_all [0, 1, 2] three_plugins"
  obtain r tr where f: "fire ?s ''deploy'' [Str ''x''] = (r, tr)"
    by (cases "fire ?s ''deploy'' [Str ''x'']")
  have "snd (fire ?s ''deploy'' [Str ''x'']) = [(0, [Str ''x'']), (1, [Str ''x-A''])]"
    by (simp add: fire_def fixture_defs callPluginsSequencialy.simps)
  with f have tr: "tr = [(0, [Str ''x'']), (1, [Str ''x-A''])]" by simp
  then have m: "(1, [Str ''x-A'']) \<in> set tr" by simp
  have h: "hook_of (objs ?s (seq_plugins ?s ! 1)) ''deploy'' =
     Some (\<lambda>args. Future (Rejected (Error ''boom'')))"
    by (simp add: fixture_defs)
  from fire_fail_fast [OF f m h refl] have "r = Returned (Rejected (Error ''boom''))" by simp
  with f tr show ?thesis by simp
qed

lemma hook_of_not_inherited:
  "own_hook pl ev = None \<Longrightarrow> ev \<notin> set object_prototype \<Longrightarrow> hook_of pl ev = None"
  by (cases "hooks pl") (simp_all add: hook_of_def own_hook_def)

text \<open>
  Apart from the names of the members of \<open>Object.prototype\<close>, an event for which no
  registered plugin has a handler leaves the tuple as it is, whatever the number of
  plugins, and no handler is called.
\<close>

lemma fire_unhandled_other_events:
  assumes "ev \<notin> set object_prototype"
    and "\<forall>p \<in> set (seq_plugins s). own_hook (objs s p) ev = None"
  shows "fire s ev T = (Returned (Fulfilled T), [])"
proof -
  from assms have "\<forall>p \<in> set (seq_plugins s). hook_of (objs s p) ev = None"
    by (simp add: hook_of_not_inherited)
  from callP_unhandled [OF this] show ?thesis by (simp add: fire_def)
qed

text \<open>
  C3. One plugin is registered, named A, with an empty hooks object: it has no handler for
  the event \<open>toString\<close>. \<open>fire('toString', 'x')\<close> does not resolve to the tuple: the
  read \<open>hooks['toString']\<close> finds the member of \<open>Object.prototype\<close>, the plugin is
  taken to implement the hook, and \<open>fire\<close> throws a TypeError.
\<close>

theorem fire_inherited_member_throws:
  "own_hook (objs (register_all [0] hookless_store) 0) ''toString'' = None \<and>
   fire (register_all [0] hookless_store) ''toString'' [Str ''x''] =
     (Threw TypeError, [(0, [Str ''x''])])"
  by (simp add: fire_def fixture_defs own_hook_def hookless_store_def object_prototype_def
      inherited_hook_def callPluginsSequencialy.simps)

text \<open>The dispatcher stays inside the model.\<close>

lemma callP_not_Outside: "fst (callPluginsSequencialy s ev i args) \<noteq> Outside"
proof (cases "length (seq_plugins s) \<le> i")
  case True
  then show ?thesis by (simp add: callP_end)
next
  case False
  from False show ?thesis
  proof (induction "length (seq_plugins s) - i" arbitrary: i rule: less_induct)
    case less
    then have lt: "i < length (seq_plugins s)" by simp
    show ?case
    proof (cases "hook_of (objs s (seq_plugins s ! i)) ev")
      case None
      show ?thesis
      proof (cases "length (seq_plugins s) \<le> Suc i")
        case True
        then show ?thesis by (simp add: callP_skip [OF lt None] callP_end)
      next
        case False
        with less.hyps [of "Suc i"] lt show ?thesis
          by (simp add: callP_skip [OF lt None])
      qed
    next
      case (Some h)
      show ?thesis
      proof (cases "\<exists>args'. h args = Future (Fulfilled args')")
        case True
        then obtain args' where "h args = Future (Fulfilled args')" by blast
        then show ?thesis by (simp add: callP_next [OF lt Some])
      next
        case False
        then have "\<forall>args'. h args \<noteq> Future (Fulfilled args')" by blast
        from callP_stop [OF lt Some this] show ?thesis
          by (simp split: ret.splits)
      qed
    qed
  qed
qed

section \<open>The configuration store and the registry of the Pebo engine\<close>









lemma plugiConfigKey_lager [simp]:
  "plugiConfigKey camelCase (pl\<lparr>lager := x\<rparr>) = plugiConfigKey camelCase pl"
  by (simp add: plugiConfigKey_def)











lemmas pebo_defs = empty_heap_def nameless_store_def nameless_def registerPlugin_def
  inject_lager_def plugiConfigKey_def getConfig_def get_prop_def lookup_def
  override_config_def assign_def assignValues_def own_enumerable_def config_val_def
  store_config_def array_index_def digit_val_def digits_value_def add_hooks_def
  add_extensions_def extension_key_def Lager_def Let_def camelCase_word_def lower_case_def
  array_chain_def object_chain_def array_prototype_def object_prototype_def

text \<open>No member of \<open>Array.prototype\<close> or \<open>Object.prototype\<close> has a colon in its name.\<close>

lemma array_prototype_no_colon: "list_all (\<lambda>n. CHR '':'' \<notin> set n) array_prototype"
  by (simp add: array_prototype_def)

lemma object_prototype_no_colon: "list_all (\<lambda>n. CHR '':'' \<notin> set n) object_prototype"
  by (simp add: object_prototype_def)

lemma inherited_namespaced:
  assumes "CHR '':'' \<in> set key"
  shows "inherited array_chain key = Undefined"
proof -
  from assms array_prototype_no_colon have "key \<notin> set array_prototype"
    unfolding list_all_iff by blast
  moreover from assms object_prototype_no_colon have "key \<notin> set object_prototype"
    unfolding list_all_iff by blast
  ultimately show ?thesis
    by (simp add: array_chain_def object_chain_def)
qed

text \<open>
  For a key of the form \<open>plugin:extension\<close> under which no extension is registered,
  \<open>call\<close> gives a future fulfilled with the last argument, and with \<open>undefined\<close> when
  there is no argument.
\<close>

lemma call_unregistered_namespaced:
  assumes "CHR '':'' \<in> set key" and "map_of (this_extensions s) key = None"
  shows "call key args s = Future (Fulfilled (if args = [] then Undefined else last args))"
  using assms by (simp add: call_def inherited_namespaced)

text \<open>
  C9. In a new engine no extension is registered under \<open>toString\<close>, and \<open>call('toString')\<close>
  does not resolve to \<open>undefined\<close>: the read \<open>this.extensions['toString']\<close> finds the
  member of \<open>Array.prototype\<close>, which is applied to \<open>null\<close> and throws a TypeError.
\<close>

theorem call_inherited_member_throws:
  "map_of (this_extensions (Lager nameless_store empty_heap 0)) ''toString'' = None \<and>
   call ''toString'' [] (Lager nameless_store empty_heap 0) = Throws TypeError"
  by (simp add: call_def Lager_def array_chain_def array_prototype_def apply_inherited_def)

text \<open>
  C4. \<open>call\<close> returns what the registered extension returns, as it is: with the plugin
  \<open>P\<close> registered in a new engine, whose extension \<open>double\<close> returns the plain number,
  \<open>call('P:double', 5)\<close> is the plain number 10 and not a future fulfilled with 10.
\<close>

theorem call_registered_returns_plain:
  "call ''P:double'' [Num 5]
     (snd (registerPlugin camelCase_word 0 (Lager plugin_P empty_heap 0))) = Plain (Num 10) \<and>
   call ''P:double'' [Num 5]
     (snd (registerPlugin camelCase_word 0 (Lager plugin_P empty_heap 0))) \<noteq>
     Future (Fulfilled (Num 10))"
proof -
  have "this_extensions (snd (registerPlugin camelCase_word 0 (Lager plugin_P empty_heap 0))) =
        [(''P:double'', double)]"
    by (simp add: pebo_defs plugin_P_def)
  then show ?thesis
    by (simp add: call_def double_def)
qed

text \<open>
  C5. On the configuration \<open>{a: null}\<close>, \<open>getConfig('a.b')\<close> throws a TypeError: the loop
  stops on \<open>undefined\<close> only, and reads the property \<open>b\<close> of \<open>null\<close>.
\<close>

theorem getConfig_null_throws:
  "getConfig (Some ''a.b'') null_config = Threw TypeError"
  by (simp add: null_config_def pebo_defs)





lemma find_first:
  "i < length xs \<Longrightarrow> P (xs ! i) \<Longrightarrow> \<forall>j<i. \<not> P (xs ! j) \<Longrightarrow> find P xs = Some (xs ! i)"
  unfolding find_Some_iff by blast

lemma find_none: "\<forall>x \<in> set xs. \<not> P x \<Longrightarrow> find P xs = None"
  by (simp add: find_None_iff)

text \<open>
  C8. In both engines \<open>getPlugin\<close> gives the first registered descriptor with the given
  name: the one at position \<open>i\<close> when no descriptor before position \<open>i\<close> has the name.
  When no registered descriptor has the name, \<open>getPlugin\<close> of the engine that extends
  Pebo throws an error, and \<open>getPlugin\<close> of src/lib/lager.js returns \<open>undefined\<close>.
\<close>

theorem getPlugin_first_match:
  "(i < length (plugins s) \<and> name (descriptors s (plugins s ! i)) = Some n \<and>
    (\<forall>j<i. name (descriptors s (plugins s ! j)) \<noteq> Some n) \<longrightarrow>
      getPlugin n s = Returned (Ref (plugins s ! i))) \<and>
   ((\<forall>p \<in> set (plugins s). name (descriptors s p) \<noteq> Some n) \<longrightarrow>
      getPlugin n s =
        Threw (Error (''The plugin '' @ [CHR 0x22] @ n @ [CHR 0x22]
                      @ '' is not registered in the Lager instance''))) \<and>
   (i' < length (seq_plugins t) \<and> name (objs t (seq_plugins t ! i')) = Some n \<and>
    (\<forall>j<i'. name (objs t (seq_plugins t ! j)) \<noteq> Some n) \<longrightarrow>
      getPlugin_seq n t = Returned (Ref (seq_plugins t ! i'))) \<and>
   ((\<forall>p \<in> set (seq_plugins t). name (objs t p) \<noteq> Some n) \<longrightarrow>
      getPlugin_seq n t = Returned Undefined)"
proof (intro conjI impI)
  assume "i < length (plugins s) \<and> name (descriptors s (plugins s ! i)) = Some n \<and>
    (\<forall>j<i. name (descriptors s (plugins s ! j)) \<noteq> Some n)"
  then have "find (\<lambda>p. name (descriptors s p) = Some n) (plugins s) = Some (plugins s ! i)"
    by (intro find_first) simp_all
  then show "getPlugin n s = Returned (Ref (plugins s ! i))"
    by (simp add: getPlugin_def)
next
  assume "\<forall>p \<in> set (plugins s). name (descriptors s p) \<noteq> Some n"
  then have "find (\<lambda>p. name (descriptors s p) = Some n) (plugins s) = None"
    by (rule find_none)
  then show "getPlugin n s =
        Threw (Error (''The plugin '' @ [CHR 0x22] @ n @ [CHR 0x22]
                      @ '' is not registered in the Lager instance''))"
    by (simp add: getPlugin_def)
next
  assume "i' < length (seq_plugins t) \<and> name (objs t (seq_plugins t ! i')) = Some n \<and>
    (\<forall>j<i'. name (objs t (seq_plugins t ! j)) \<noteq> Some n)"
  then have "find (\<lambda>p. name (objs t p) = Some n) (seq_plugins t) = Some (seq_plugins t ! i')"
    by (intro find_first) simp_all
  then show "getPlugin_seq n t = Returned (Ref (seq_plugins t ! i'))"
    by (simp add: getPlugin_seq_def)
next
  assume "\<forall>p \<in> set (seq_plugins t). name (objs t p) \<noteq> Some n"
  then have "find (\<lambda>p. name (objs t p) = Some n) (seq_plugins t) = None"
    by (rule find_none)
  then show "getPlugin_seq n t = Returned Undefined"
    by (simp add: getPlugin_seq_def)
qed

text \<open>
  With the plugins A and B registered, \<open>getPlugin('iam')\<close> of src/lib/lager.js returns
  \<open>undefined\<close> and throws nothing.
\<close>

theorem getPlugin_seq_not_found_counterexample:
  "getPlugin_seq ''iam'' (register_all [0, 1] (two_plugins ''deploy'')) = Returned Undefined"
  by (simp add: getPlugin_seq_def fixture_defs)

text \<open>Two registered descriptors with the name \<open>iam\<close>, at the addresses 7 and 8.\<close>

lemma two_iam_plugins: "plugins two_iam = [7, 8]"
  by (simp add: two_iam_def timeout_state_def iam_plugin_def timeout_heap_def pebo_defs)

lemma two_iam_name: "name (descriptors two_iam a) = Some ''iam''"
  by (simp add: two_iam_def timeout_state_def iam_plugin_def timeout_heap_def pebo_defs)

text \<open>
  With two descriptors of the same name the one registered first is found; a name that
  no descriptor has gives the error in one engine and \<open>undefined\<close> in the other.
\<close>

theorem getPlugin_first_match_witness:
  "getPlugin ''iam'' two_iam = Returned (Ref 7) \<and>
   getPlugin ''s3'' two_iam =
     Threw (Error ''The plugin \"s3\" is not registered in the Lager instance'') \<and>
   getPlugin_seq ''B'' (register_all [0, 2, 2] (two_plugins ''deploy'')) = Returned (Ref 2) \<and>
   getPlugin_seq ''iam'' (register_all [0, 2, 2] (two_plugins ''deploy'')) = Returned Undefined"
proof -
  let ?t = "register_all [0, 2, 2] (two_plugins ''deploy'')"
  have tp: "seq_plugins ?t = [0, 2, 2]" by (simp add: fixture_defs)
  have tn: "name (objs ?t 0) = Some ''A''" "name (objs ?t 2) = Some ''B''"
    by (simp_all add: fixture_defs)
  from getPlugin_first_match [of 0 two_iam "''iam''"]
  have 1: "getPlugin ''iam'' two_iam = Returned (Ref 7)"
    by (simp add: two_iam_plugins two_iam_name)
  from getPlugin_first_match [of _ two_iam "''s3''"]
  have 2: "getPlugin ''s3'' two_iam =
     Threw (Error ''The plugin \"s3\" is not registered in the Lager instance'')"
    by (simp add: two_iam_plugins two_iam_name)
  from getPlugin_first_match [of _ _ "''B''" 1 ?t]
  have 3: "getPlugin_seq ''B'' ?t = Returned (Ref 2)"
    by (simp add: tp tn)
  from getPlugin_first_match [of _ _ "''iam''" _ ?t]
  have 4: "getPlugin_seq ''iam'' ?t = Returned Undefined"
    by (simp add: tp tn)
  from 1 2 3 4 show ?thesis by simp
qed



end
